theory Spec2Isabelle
  imports Complex_Main
begin

section \<open>Argentine plate recognition: the text engine of \<^verbatim>\<open>anpr_easyocr.py\<close>\<close>

text \<open>
  The development embeds the class \<^verbatim>\<open>ArgentinePlateRecognizer\<close>. Two kinds of text occur.
  Raw OCR text is an arbitrary Python \<^verbatim>\<open>str\<close>: a list of Unicode code points, here a list
  of natural numbers. Text that went through \<^verbatim>\<open>clean_text\<close> holds ASCII characters only, and
  is a \<open>string\<close>; a \<open>char\<close> is read as the code point of the same number (0 to 255).
\<close>

type_synonym codepoint = nat
type_synonym pystr = "codepoint list"

datatype py_error = IndexError | ValueError

subsection \<open>Character classes of \<^verbatim>\<open>str.isalpha\<close> and \<^verbatim>\<open>str.isdigit\<close>\<close>

text \<open>
  Python's \<^verbatim>\<open>isalpha\<close> holds of the code points of general category L*, and \<^verbatim>\<open>isdigit\<close>
  of those with numeric type Digit or Decimal. Below 256 these are the ASCII letters and
  digits, the Latin-1 letters, and the superscripts 1, 2 and 3.
\<close>

definition char_isalpha :: "char \<Rightarrow> bool" where
  "char_isalpha c =
     (let n = (of_char c :: nat)
      in (65 \<le> n \<and> n \<le> 90) \<or> (97 \<le> n \<and> n \<le> 122) \<or> n = 170 \<or> n = 181 \<or> n = 186
         \<or> (192 \<le> n \<and> n \<le> 214) \<or> (216 \<le> n \<and> n \<le> 246) \<or> (248 \<le> n \<and> n \<le> 255))"

definition char_isdigit :: "char \<Rightarrow> bool" where
  "char_isdigit c =
     (let n = (of_char c :: nat)
      in (48 \<le> n \<and> n \<le> 57) \<or> n = 178 \<or> n = 179 \<or> n = 185)"

text \<open>On a string both methods are false when the string is empty.\<close>

definition isalpha :: "string \<Rightarrow> bool" where
  "isalpha s = (s \<noteq> [] \<and> list_all char_isalpha s)"

definition isdigit :: "string \<Rightarrow> bool" where
  "isdigit s = (s \<noteq> [] \<and> list_all char_isdigit s)"

text \<open>The slice \<^verbatim>\<open>s[i:j]\<close> for \<open>0 \<le> i \<le> j\<close>; a slice never raises.\<close>

definition slice :: "'a list \<Rightarrow> nat \<Rightarrow> nat \<Rightarrow> 'a list" where
  "slice s i j = take (j - i) (drop i s)"

text \<open>The subscript \<^verbatim>\<open>s[i]\<close> for \<open>0 \<le> i\<close> raises \<^verbatim>\<open>IndexError\<close> out of range.\<close>

definition subscript :: "'a list \<Rightarrow> nat \<Rightarrow> py_error + 'a" where
  "subscript s i = (if i < length s then Inr (s ! i) else Inl IndexError)"

subsection \<open>The format validator\<close>

definition validate_plate_format :: "string \<Rightarrow> py_error + bool" where
  "validate_plate_format text =
     (if length text = 6 then
        Inr (isalpha (take 3 text) \<and> isdigit (drop 3 text))
      else if length text = 7 then
        (if isalpha (take 2 text) \<and> isdigit (slice text 2 5) \<and> isalpha (drop 5 text) then Inr True
         else (case subscript text 0 of
                 Inl e \<Rightarrow> Inl e
               | Inr c \<Rightarrow>
                   if isalpha [c] \<and> isdigit (slice text 1 4) \<and> isalpha (drop 4 text) then Inr True
                   else Inr False))
      else if length text = 8 then
        (case subscript text 0 of
           Inl e \<Rightarrow> Inl e
         | Inr c \<Rightarrow> Inr (isalpha [c] \<and> isdigit (slice text 1 4) \<and> isalpha (drop 4 text)))
      else Inr False)"

text \<open>
  The grammar in the words of the specification: a length, and a character class for each
  block of positions.
\<close>

definition plate_grammar :: "string \<Rightarrow> bool" where
  "plate_grammar s =
     ((length s = 6 \<and> list_all char_isalpha (take 3 s) \<and> list_all char_isdigit (drop 3 s))
      \<or> (length s = 7
          \<and> ((list_all char_isalpha (take 2 s) \<and> list_all char_isdigit (take 3 (drop 2 s))
               \<and> list_all char_isalpha (drop 5 s))
              \<or> (list_all char_isalpha (take 1 s) \<and> list_all char_isdigit (take 3 (drop 1 s))
                  \<and> list_all char_isalpha (drop 4 s))))
      \<or> (length s = 8 \<and> list_all char_isalpha (take 1 s)
          \<and> list_all char_isdigit (take 3 (drop 1 s)) \<and> list_all char_isalpha (drop 4 s)))"

subsection \<open>The configuration set by \<^verbatim>\<open>__init__\<close>\<close>

text \<open>
  The two thresholds are the constructor's arguments (defaults 40 and 0.5); the two tables
  are the same for every instance. A confidence is a real number: the comparison of two
  floats that are not NaN is the comparison of their values.
\<close>

record recognizer =
  max_horizontal_gap :: real
  min_confidence :: real

definition ambiguous_entries :: "(char \<times> string) list" where
  "ambiguous_entries =
     [(CHR ''0'', ''0OD''),
      (CHR ''O'', ''O0D''),
      (CHR ''D'', ''DO0''),
      (CHR ''1'', ''1IL''),
      (CHR ''I'', ''I1L''),
      (CHR ''L'', ''L1I''),
      (CHR ''2'', ''2Z''),
      (CHR ''Z'', ''Z2''),
      (CHR ''5'', ''5S''),
      (CHR ''S'', ''S5''),
      (CHR ''8'', ''8B''),
      (CHR ''B'', ''B8''),
      (CHR ''4'', ''4A''),
      (CHR ''A'', ''A4''),
      (CHR ''V'', ''VY''),
      (CHR ''Y'', ''YV''),
      (CHR ''N'', ''NM''),
      (CHR ''M'', ''MN''),
      (CHR ''C'', ''CG''),
      (CHR ''G'', ''GC'')]"

definition ambiguous_map :: "char \<rightharpoonup> string" where
  "ambiguous_map = map_of ambiguous_entries"

definition ignore_words :: "string set" where
  "ignore_words =
     {''ARGENTINA'', ''REPUBLICA'', ''MERCOSUR'', ''AUTOMOTOR'', ''NACIONAL'',
      ''BLOG'', ''CO'', ''WWW'', ''FECOSUR'', ''FECOSURR'', ''DE'', ''DEL'', ''OFICIAL'',
      ''VEHICULO'', ''VEHICULOS'', ''GOBIERNO'', ''PODER'', ''EJECUTIVO''}"

subsection \<open>The normalizer\<close>

text \<open>
  \<^verbatim>\<open>unicodedata.normalize("NFKD", text)\<close> belongs to the Python library, and its table is
  not part of the program: the normal form is the parameter \<open>nfkd\<close>. Encoding to ASCII with
  \<^verbatim>\<open>"ignore"\<close> drops every code point from 128 on, \<^verbatim>\<open>upper\<close> of an ASCII string moves the
  letters a to z only, and the substitution deletes what is neither A to Z nor 0 to 9.
\<close>

definition encode_ascii_ignore :: "pystr \<Rightarrow> pystr" where
  "encode_ascii_ignore text = filter (\<lambda>c. c < 128) text"

definition upper :: "pystr \<Rightarrow> pystr" where
  "upper text = map (\<lambda>c. if 97 \<le> c \<and> c \<le> 122 then c - 32 else c) text"

definition re_sub_non_alnum :: "pystr \<Rightarrow> pystr" where
  "re_sub_non_alnum text = filter (\<lambda>c. (65 \<le> c \<and> c \<le> 90) \<or> (48 \<le> c \<and> c \<le> 57)) text"

definition clean_text :: "(pystr \<Rightarrow> pystr) \<Rightarrow> pystr \<Rightarrow> string" where
  "clean_text nfkd text = map char_of (re_sub_non_alnum (upper (encode_ascii_ignore (nfkd text))))"

text \<open>A literal as raw text, and the characters that \<^verbatim>\<open>str.isspace\<close> accepts.\<close>

definition raw :: "string \<Rightarrow> pystr" where
  "raw s = map of_char s"

definition isspace_cp :: "codepoint \<Rightarrow> bool" where
  "isspace_cp c =
     ((9 \<le> c \<and> c \<le> 13) \<or> (28 \<le> c \<and> c \<le> 32) \<or> c = 133 \<or> c = 160 \<or> c = 5760
      \<or> (8192 \<le> c \<and> c \<le> 8202) \<or> c = 8232 \<or> c = 8233 \<or> c = 8239 \<or> c = 8287 \<or> c = 12288)"

text \<open>
  A normal form for the examples. It decomposes the lower-case letters a, e, i, o, u with
  an acute accent and n with a tilde into the base letter and the combining mark, as NFKD
  does, and leaves every other code point as it is, which is what NFKD does for the ASCII
  code points.
\<close>

definition nfkd_sample :: "pystr \<Rightarrow> pystr" where
  "nfkd_sample text =
     concat (map (\<lambda>c. if c = 225 then [97, 769] else if c = 233 then [101, 769]
                       else if c = 237 then [105, 769] else if c = 243 then [111, 769]
                       else if c = 250 then [117, 769] else if c = 241 then [110, 771]
                       else [c]) text)"

definition ascii_alnum :: "codepoint \<Rightarrow> bool" where
  "ascii_alnum c = ((48 \<le> c \<and> c \<le> 57) \<or> (65 \<le> c \<and> c \<le> 90) \<or> (97 \<le> c \<and> c \<le> 122))"

definition upper_or_digit :: "char \<Rightarrow> bool" where
  "upper_or_digit c = (c \<in> set ''ABCDEFGHIJKLMNOPQRSTUVWXYZ0123456789'')"

subsection \<open>The ambiguity expander\<close>

text \<open>
  \<^verbatim>\<open>itertools.product\<close> as the library documents it: the partial tuples are extended by
  each pool in turn. The generator is modelled by the list of what it yields, in order.
\<close>

definition itertools_product :: "'a list list \<Rightarrow> 'a list list" where
  "itertools_product pools =
     fold (\<lambda>pool result. concat (map (\<lambda>x. map (\<lambda>y. x @ [y]) pool) result)) pools [[]]"

text \<open>
  The option appended for a character: its entry of the map, or the character alone. The
  entries are lists of one-character strings, and joining a tuple of them gives the string
  of these characters.
\<close>

definition variants :: "char \<Rightarrow> string" where
  "variants c = (case ambiguous_map c of Some vs \<Rightarrow> vs | None \<Rightarrow> [c])"

definition options :: "string \<Rightarrow> string list" where
  "options text = map variants text"

definition generate_ambiguity_variants :: "string \<Rightarrow> string list" where
  "generate_ambiguity_variants text = itertools_product (options text)"

subsection \<open>The candidate search\<close>

text \<open>
  A group is a list of triples of a bounding box, a raw text and a confidence; the search
  does not look at the boxes. The \<^verbatim>\<open>debug\<close> flag only prints and is left out. Each
  loop of the source that returns at its first match is the search for the first match in
  the list of what the loop tries, in the order of the loop.
\<close>

definition should_ignore :: "string \<Rightarrow> bool" where
  "should_ignore txt = (txt \<in> ignore_words \<or> length txt > 8)"

definition original_texts ::
  "(pystr \<Rightarrow> pystr) \<Rightarrow> recognizer \<Rightarrow> ('b \<times> pystr \<times> real) list \<Rightarrow> (string \<times> real) list" where
  "original_texts nfkd self grp =
     map (\<lambda>(b, t, p). (clean_text nfkd t, p))
       (filter (\<lambda>(b, t, p). p \<ge> min_confidence self \<and> \<not> should_ignore (clean_text nfkd t)) grp)"

text \<open>The index pairs of the two nested \<^verbatim>\<open>range\<close> loops, and of \<^verbatim>\<open>itertools.permutations(xs, 2)\<close>.\<close>

definition pairs_in_order :: "'a list \<Rightarrow> ('a \<times> 'a) list" where
  "pairs_in_order xs =
     concat (map (\<lambda>i. map (\<lambda>j. (xs ! i, xs ! j)) [i + 1..<length xs]) [0..<length xs])"

definition permutations2 :: "'a list \<Rightarrow> ('a \<times> 'a) list" where
  "permutations2 xs =
     concat (map (\<lambda>i. map (\<lambda>j. (xs ! i, xs ! j)) (filter (\<lambda>j. j \<noteq> i) [0..<length xs]))
       [0..<length xs])"

definition priority_pattern :: "string \<Rightarrow> bool" where
  "priority_pattern raw_combined =
     (length raw_combined = 8 \<and> isalpha (take 3 raw_combined) \<and> isdigit (drop 3 raw_combined))"

text \<open>
  A loop that returns the first candidate the validator accepts; an exception of the
  validator would leave the loop.
\<close>

fun first_valid :: "string list \<Rightarrow> py_error + string option" where
  "first_valid [] = Inr None"
| "first_valid (x # xs) =
     (case validate_plate_format x of
        Inl e \<Rightarrow> Inl e
      | Inr ok \<Rightarrow> if ok then Inr (Some x) else first_valid xs)"

text \<open>One tier after the other: the next tier runs when the one before returned nothing.\<close>

definition or_else ::
  "py_error + 'a option \<Rightarrow> py_error + 'a option \<Rightarrow> py_error + 'a option" where
  "or_else r rest =
     (case r of Inl e \<Rightarrow> Inl e | Inr None \<Rightarrow> rest | Inr (Some x) \<Rightarrow> Inr (Some x))"

definition windows :: "string \<Rightarrow> string list" where
  "windows combined =
     concat (map (\<lambda>len.
       concat (map (\<lambda>j. let candidate = slice combined j (j + len)
                        in candidate # generate_ambiguity_variants candidate)
                 [0..<nat (int (length combined) - int len + 1)]))
       [6, 7, 8])"

definition all_texts :: "(pystr \<Rightarrow> pystr) \<Rightarrow> ('b \<times> pystr \<times> real) list \<Rightarrow> string list" where
  "all_texts nfkd grp =
     (let all_texts = map (\<lambda>(b, t, p). clean_text nfkd t) grp
      in filter (\<lambda>t. \<not> should_ignore t) all_texts)"

definition fallback :: "(pystr \<Rightarrow> pystr) \<Rightarrow> ('b \<times> pystr \<times> real) list \<Rightarrow> py_error + string option" where
  "fallback nfkd grp =
     (let combined = concat (all_texts nfkd grp)
      in first_valid (windows combined))"

definition search_tiers :: "string list \<Rightarrow> py_error + string option \<Rightarrow> py_error + string option" where
  "search_tiers cleaned_texts final =
     or_else (Inr (find priority_pattern (map (\<lambda>(a, b). a @ b) (pairs_in_order cleaned_texts))))
    (or_else (first_valid (map (\<lambda>(a, b). a @ b) (pairs_in_order cleaned_texts)))
    (or_else (first_valid (map (\<lambda>(a, b). a @ b) (permutations2 cleaned_texts)))
    (or_else (first_valid (concat (map (\<lambda>(a, b). generate_ambiguity_variants (a @ b))
                                     (permutations2 cleaned_texts))))
    (or_else (first_valid cleaned_texts)
    (or_else (first_valid (concat (map generate_ambiguity_variants cleaned_texts)))
     final)))))"

definition cleaned_texts ::
  "(pystr \<Rightarrow> pystr) \<Rightarrow> recognizer \<Rightarrow> ('b \<times> pystr \<times> real) list \<Rightarrow> string list" where
  "cleaned_texts nfkd self grp = map fst (original_texts nfkd self grp)"

definition extract_candidate_from_group ::
  "(pystr \<Rightarrow> pystr) \<Rightarrow> recognizer \<Rightarrow> ('b \<times> pystr \<times> real) list \<Rightarrow> py_error + string option" where
  "extract_candidate_from_group nfkd self grp =
     search_tiers (cleaned_texts nfkd self grp) (fallback nfkd grp)"

text \<open>
  What the tiers after the priority rule try, in the order in which they try it: the raw
  pairs, the permuted pairs, the variants of the permuted pairs, the single tokens, the
  variants of the single tokens.
\<close>

definition candidates_2_to_6 :: "string list \<Rightarrow> string list" where
  "candidates_2_to_6 ts =
     map (\<lambda>(a, b). a @ b) (pairs_in_order ts)
     @ map (\<lambda>(a, b). a @ b) (permutations2 ts)
     @ concat (map (\<lambda>(a, b). generate_ambiguity_variants (a @ b)) (permutations2 ts))
     @ ts
     @ concat (map generate_ambiguity_variants ts)"

text \<open>
  The sliding window in the words of the specification: the window of length \<open>n\<close> at the
  start of the string, then the windows of the string without its first character, as
  long as \<open>n\<close> characters are left.
\<close>

fun sliding :: "nat \<Rightarrow> 'a list \<Rightarrow> 'a list list" where
  "sliding n [] = (if n = 0 then [[]] else [])"
| "sliding n (x # xs) = (if length (x # xs) < n then [] else take n (x # xs) # sliding n xs)"

subsection \<open>The recognizer\<close>

text \<open>
  A bounding box is a list of points \<open>(x, y)\<close>. \<^verbatim>\<open>min\<close> of an empty sequence raises
  \<^verbatim>\<open>ValueError\<close>; \<^verbatim>\<open>sorted\<close> computes every key and is stable.
\<close>

type_synonym bbox = "(real \<times> real) list"
type_synonym ocr_result = "bbox \<times> pystr \<times> real"

fun py_min :: "real list \<Rightarrow> py_error + real" where
  "py_min [] = Inl ValueError"
| "py_min (x # xs) = Inr (fold min xs x)"

fun sort_keys :: "ocr_result list \<Rightarrow> py_error + (real \<times> ocr_result) list" where
  "sort_keys [] = Inr []"
| "sort_keys (r # rs) =
     (case py_min (map snd (fst r)) of
        Inl e \<Rightarrow> Inl e
      | Inr k \<Rightarrow> (case sort_keys rs of Inl e \<Rightarrow> Inl e | Inr ks \<Rightarrow> Inr ((k, r) # ks)))"

definition group_close_texts :: "ocr_result list \<Rightarrow> py_error + ocr_result list list" where
  "group_close_texts results =
     (case sort_keys results of
        Inl e \<Rightarrow> Inl e
      | Inr ks \<Rightarrow> Inr (map (\<lambda>(k, res). [res]) (sort_key fst ks)))"

definition not_found :: string where
  "not_found = ''No se detect'' @ [CHR 0xF3] @ '' patente v'' @ [CHR 0xE1] @ ''lida.''"

text \<open>
  The file system, the image decoder and the OCR reader are outside the program: whether
  the path exists, what \<^verbatim>\<open>cv2.imread\<close> gives (\<open>None\<close> when the image cannot be opened) and
  what \<^verbatim>\<open>readtext\<close> gives are parameters. The test \<^verbatim>\<open>if candidate:\<close> fails on \<^verbatim>\<open>None\<close> and on
  the empty string.
\<close>

definition recognize_plate ::
  "(pystr \<Rightarrow> pystr) \<Rightarrow> recognizer \<Rightarrow> (string \<Rightarrow> bool) \<Rightarrow> (string \<Rightarrow> 'img option) \<Rightarrow>
   ('img \<Rightarrow> ocr_result list) \<Rightarrow> string \<Rightarrow> py_error + string" where
  "recognize_plate nfkd self path_exists imread readtext image_path =
     (if \<not> path_exists image_path then Inr (''Error: La imagen '' @ image_path @ '' no existe.'')
      else case imread image_path of
        None \<Rightarrow> Inr (''Error: No se pudo abrir la imagen '' @ image_path @ ''.'')
      | Some img \<Rightarrow>
          (case group_close_texts (readtext img) of
             Inl e \<Rightarrow> Inl e
           | Inr groups \<Rightarrow>
               (case extract_candidate_from_group nfkd self (concat groups) of
                  Inl e \<Rightarrow> Inl e
                | Inr candidate \<Rightarrow>
                    (case candidate of
                       None \<Rightarrow> Inr not_found
                     | Some c \<Rightarrow> if c \<noteq> [] then Inr c else Inr not_found))))"

section \<open>The format validator is the plate grammar\<close>

lemma validate_plate_format_grammar: "validate_plate_format s = Inr (plate_grammar s)"
  unfolding validate_plate_format_def plate_grammar_def isalpha_def isdigit_def slice_def
    subscript_def
  by (cases s) (auto simp: take_Suc)

lemma plate_grammar_length: "plate_grammar s \<Longrightarrow> length s = 6 \<or> length s = 7 \<or> length s = 8"
  by (auto simp: plate_grammar_def)

text \<open>
  C3: \<^verbatim>\<open>validate_plate_format\<close> never raises, and it returns true exactly on the strings of
  the grammar: length 6 with 3 letters and 3 digits; length 7 with 2 letters, 3 digits and
  2 letters, or 1 letter, 3 digits and 3 letters; length 8 with 1 letter, 3 digits and
  4 letters. On every other length it returns false.
\<close>

theorem validate_plate_format_iff:
  "validate_plate_format s = Inr (plate_grammar s)
   \<and> (length s \<noteq> 6 \<and> length s \<noteq> 7 \<and> length s \<noteq> 8 \<longrightarrow> validate_plate_format s = Inr False)"
  using plate_grammar_length [of s] by (auto simp: validate_plate_format_grammar)

theorem validate_plate_format_iff_witness:
  "validate_plate_format ''AB123CD'' = Inr (plate_grammar ''AB123CD'')
   \<and> plate_grammar ''AB123CD''
   \<and> length ''ABC12'' \<noteq> 6 \<and> length ''ABC12'' \<noteq> 7 \<and> length ''ABC12'' \<noteq> 8
   \<and> validate_plate_format ''ABC12'' = Inr False"
  using validate_plate_format_iff [of "''AB123CD''"] validate_plate_format_iff [of "''ABC12''"]
  by (simp add: plate_grammar_def char_isalpha_def char_isdigit_def)

section \<open>The ambiguity map\<close>

lemma entries_check:
  "\<forall>(x, vx) \<in> set ambiguous_entries.
     x \<in> set vx \<and> distinct vx \<and> (\<forall>(y, vy) \<in> set ambiguous_entries. (y \<in> set vx) = (x \<in> set vy))"
  by code_simp

text \<open>
  C9: every key of \<^verbatim>\<open>ambiguous_map\<close> is in its own entry, and for two keys \<open>x\<close> and \<open>y\<close>,
  \<open>y\<close> is in the entry of \<open>x\<close> exactly when \<open>x\<close> is in the entry of \<open>y\<close>.
\<close>

theorem ambiguous_map_reflexive_symmetric:
  "(\<forall>x vx. ambiguous_map x = Some vx \<longrightarrow> x \<in> set vx)
   \<and> (\<forall>x y vx vy. ambiguous_map x = Some vx \<and> ambiguous_map y = Some vy \<longrightarrow>
        (y \<in> set vx \<longleftrightarrow> x \<in> set vy))"
  using entries_check unfolding ambiguous_map_def
  by (fastforce dest!: map_of_SomeD)

theorem ambiguous_map_reflexive_symmetric_witness:
  "ambiguous_map CHR ''O'' = Some ''O0D'' \<and> ambiguous_map CHR ''0'' = Some ''0OD''
   \<and> CHR ''O'' \<in> set ''O0D'' \<and> CHR ''0'' \<in> set ''O0D'' \<and> CHR ''O'' \<in> set ''0OD''"
  using ambiguous_map_reflexive_symmetric
  by (simp add: ambiguous_map_def ambiguous_entries_def)

lemma variants_self: "c \<in> set (variants c)"
  using entries_check
  by (auto simp: variants_def ambiguous_map_def split: option.splits dest!: map_of_SomeD)

lemma variants_distinct: "distinct (variants c)"
  using entries_check
  by (auto simp: variants_def ambiguous_map_def split: option.splits dest!: map_of_SomeD)

section \<open>The ambiguity expander\<close>

text \<open>The fold of \<^verbatim>\<open>itertools.product\<close> builds the lexicographic product of the pools.\<close>

lemma product_row:
  "concat (map (\<lambda>y. map ((@) (a @ [y])) ps) pool)
     = map ((@) a) (concat (map (\<lambda>x. map (Cons x) ps) pool))"
  by (induction pool) simp_all

lemma fold_product_step:
  "fold (\<lambda>pool result. concat (map (\<lambda>x. map (\<lambda>y. x @ [y]) pool) result)) pools acc
     = concat (map (\<lambda>a. map ((@) a) (product_lists pools)) acc)"
proof (induction pools arbitrary: acc)
  case Nil
  show ?case by (induction acc) simp_all
next
  case (Cons pool pools)
  have "concat (map (\<lambda>b. map ((@) b) (product_lists pools))
                  (concat (map (\<lambda>x. map (\<lambda>y. x @ [y]) pool) acc)))
        = concat (map (\<lambda>a. map ((@) a) (product_lists (pool # pools))) acc)"
    by (induction acc) (simp_all add: product_row comp_def)
  then show ?case by (simp add: Cons.IH)
qed

lemma itertools_product_eq: "itertools_product pools = product_lists pools"
proof -
  have "map ((@) []) (product_lists pools) = product_lists pools"
    by (simp add: map_idI)
  then show ?thesis by (simp add: itertools_product_def fold_product_step)
qed

lemma variants_product: "generate_ambiguity_variants s = product_lists (map variants s)"
  by (simp add: generate_ambiguity_variants_def itertools_product_eq options_def)

lemma length_product_lists: "length (product_lists xss) = prod_list (map length xss)"
  by (induction xss) (simp_all add: length_concat comp_def sum_list_triv)

lemma variants_length: "t \<in> set (generate_ambiguity_variants s) \<Longrightarrow> length t = length s"
  by (simp add: variants_product in_set_product_lists_length)

lemma variants_set:
  "set (generate_ambiguity_variants s)
     = {t. length t = length s \<and> (\<forall>i<length s. t ! i \<in> set (variants (s ! i)))}"
  by (auto simp: variants_product product_lists_set list_all2_conv_all_nth)

lemma variants_O0:
  "generate_ambiguity_variants ''O0''
     = [''O0'', ''OO'', ''OD'', ''00'', ''0O'', ''0D'', ''D0'', ''DO'', ''DD'']"
  by (simp add: generate_ambiguity_variants_def itertools_product_def options_def
      variants_def ambiguous_map_def ambiguous_entries_def)

text \<open>
  C4: \<^verbatim>\<open>generate_ambiguity_variants\<close> yields exactly the strings of the length of \<open>s\<close> whose
  character at each position is a variant of the character of \<open>s\<close> there; a character is
  a variant of itself; the number of strings yielded is the product of the sizes of the
  variant sets, no string is yielded twice, and the order is the lexicographic order of the
  product, the first position changing last.
\<close>

theorem generate_ambiguity_variants_cartesian:
  "set (generate_ambiguity_variants s)
     = {t. length t = length s \<and> (\<forall>i<length s. t ! i \<in> set (variants (s ! i)))}
   \<and> (\<forall>c. c \<in> set (variants c) \<and> distinct (variants c))
   \<and> length (generate_ambiguity_variants s) = prod_list (map (\<lambda>c. card (set (variants c))) s)
   \<and> distinct (generate_ambiguity_variants s)
   \<and> (\<forall>t \<in> set (generate_ambiguity_variants s). length t = length s)
   \<and> generate_ambiguity_variants s = product_lists (map variants s)"
proof -
  have "length (generate_ambiguity_variants s) = prod_list (map (\<lambda>c. card (set (variants c))) s)"
    by (simp add: variants_product length_product_lists comp_def distinct_card variants_distinct)
  moreover have "distinct (generate_ambiguity_variants s)"
    by (simp add: variants_product distinct_product_lists variants_distinct)
  ultimately show ?thesis
    using variants_set [of s] variants_length [of _ s] variants_product [of s]
    by (simp add: variants_self variants_distinct)
qed

theorem generate_ambiguity_variants_cartesian_witness:
  "''DD'' \<in> set (generate_ambiguity_variants ''O0'') \<and> length ''DD'' = length ''O0''
   \<and> length (generate_ambiguity_variants ''O0'') = 9"
proof -
  have "\<forall>t \<in> set (generate_ambiguity_variants ''O0''). length t = length ''O0''"
    using generate_ambiguity_variants_cartesian [of "''O0''"] by blast
  then show ?thesis by (simp add: variants_O0)
qed

section \<open>The candidate search as a search for the first match\<close>

lemma first_valid_find: "first_valid xs = Inr (find plate_grammar xs)"
  by (induction xs) (simp_all add: validate_plate_format_grammar)

lemma find_append: "find P (xs @ ys) = (case find P xs of None \<Rightarrow> find P ys | Some x \<Rightarrow> Some x)"
  by (induction xs) simp_all

lemma or_else_find:
  "or_else (Inr (find P xs)) (Inr (find P ys)) = Inr (find P (xs @ ys))"
  by (simp add: or_else_def find_append split: option.splits)

lemma search_tiers_find:
  "search_tiers ts (first_valid ws) =
     Inr (case find priority_pattern (map (\<lambda>(a, b). a @ b) (pairs_in_order ts)) of
            Some r \<Rightarrow> Some r
          | None \<Rightarrow> find plate_grammar (candidates_2_to_6 ts @ ws))"
  unfolding search_tiers_def first_valid_find or_else_find candidates_2_to_6_def
  by (simp add: or_else_def split: option.splits)

lemma find_SomeD: "find P xs = Some x \<Longrightarrow> P x \<and> x \<in> set xs"
  by (auto simp: find_Some_iff)

lemma extract_find:
  "extract_candidate_from_group nfkd self grp =
     Inr (case find priority_pattern
                 (map (\<lambda>(a, b). a @ b) (pairs_in_order (cleaned_texts nfkd self grp))) of
            Some r \<Rightarrow> Some r
          | None \<Rightarrow> find plate_grammar
              (candidates_2_to_6 (cleaned_texts nfkd self grp)
               @ windows (concat (all_texts nfkd grp))))"
  by (simp add: extract_candidate_from_group_def fallback_def search_tiers_find)

lemma extract_shape:
  assumes "extract_candidate_from_group nfkd self grp = Inr (Some r)"
  shows "priority_pattern r \<or> plate_grammar r"
  using assms unfolding extract_find
  by (auto split: option.splits dest: find_SomeD)

lemma extract_later_tiers:
  assumes "extract_candidate_from_group nfkd self grp = Inr (Some r)"
    and "find priority_pattern
           (map (\<lambda>(a, b). a @ b) (pairs_in_order (cleaned_texts nfkd self grp))) = None"
  shows "plate_grammar r"
  using assms unfolding extract_find
  by (auto split: option.splits dest: find_SomeD)

lemma extract_length:
  assumes "extract_candidate_from_group nfkd self grp = Inr (Some r)"
  shows "length r = 6 \<or> length r = 7 \<or> length r = 8"
  using extract_shape [OF assms] plate_grammar_length [of r]
  by (auto simp: priority_pattern_def)

lemma length_not_found: "length not_found = 29"
  by (simp add: not_found_def)

lemma recognize_plate_cases:
  assumes "recognize_plate nfkd self path_exists imread readtext image_path = Inr v"
  shows "(\<not> path_exists image_path \<and> v = ''Error: La imagen '' @ image_path @ '' no existe.'')
       \<or> (path_exists image_path \<and> imread image_path = None
           \<and> v = ''Error: No se pudo abrir la imagen '' @ image_path @ ''.'')
       \<or> (\<exists>img groups. path_exists image_path \<and> imread image_path = Some img
            \<and> group_close_texts (readtext img) = Inr groups
            \<and> (extract_candidate_from_group nfkd self (concat groups) = Inr (Some v)
                \<or> v = not_found))"
  using assms unfolding recognize_plate_def
  by (auto split: if_splits option.splits sum.splits)

lemma recognize_plate_found:
  assumes "path_exists image_path" "imread image_path = Some img"
    and "group_close_texts (readtext img) = Inr groups"
    and "extract_candidate_from_group nfkd self (concat groups) = Inr (Some r)"
  shows "recognize_plate nfkd self path_exists imread readtext image_path = Inr r"
  using assms extract_length [OF assms(4)]
  by (auto simp: recognize_plate_def)

lemma recognize_plate_none:
  assumes "path_exists image_path" "imread image_path = Some img"
    and "group_close_texts (readtext img) = Inr groups"
    and "extract_candidate_from_group nfkd self (concat groups) = Inr None"
  shows "recognize_plate nfkd self path_exists imread readtext image_path = Inr not_found"
  using assms by (simp add: recognize_plate_def)

section \<open>What the search and the recognizer return\<close>

lemma example_clean_pair:
  "clean_text id (raw ''ABC'') = ''ABC''" "clean_text id (raw ''12345'') = ''12345''"
  "\<not> should_ignore ''ABC''" "\<not> should_ignore ''12345''"
  by code_simp+

lemma example_tokens_pair:
  "cleaned_texts id \<lparr>max_horizontal_gap = 40, min_confidence = 1 / 2\<rparr>
      [(b1, raw ''ABC'', 9 / 10), (b2, raw ''12345'', 9 / 10)] = [''ABC'', ''12345'']"
  by (simp add: cleaned_texts_def original_texts_def example_clean_pair)

lemma example_priority_pair:
  "find priority_pattern (map (\<lambda>(a, b). a @ b) (pairs_in_order [''ABC'', ''12345'']))
     = Some ''ABC12345''"
  by code_simp

lemma example_extract_pair:
  "extract_candidate_from_group id \<lparr>max_horizontal_gap = 40, min_confidence = 1 / 2\<rparr>
     [(b1, raw ''ABC'', 9 / 10), (b2, raw ''12345'', 9 / 10)] = Inr (Some ''ABC12345'')"
  unfolding extract_find example_tokens_pair example_priority_pair by simp

text \<open>
  C1, as stated, fails: the tokens \<^verbatim>\<open>ABC\<close> and \<^verbatim>\<open>12345\<close> make the priority rule return
  \<^verbatim>\<open>ABC12345\<close>, which the format validator rejects.
\<close>

theorem priority_rule_not_validated_counterexample:
  "extract_candidate_from_group id \<lparr>max_horizontal_gap = 40, min_confidence = 1 / 2\<rparr>
     [((), raw ''ABC'', 9 / 10), ((), raw ''12345'', 9 / 10)] = Inr (Some ''ABC12345'')
   \<and> validate_plate_format ''ABC12345'' = Inr False"
proof -
  have "validate_plate_format ''ABC12345'' = Inr False" by code_simp
  then show ?thesis by (simp add: example_extract_pair)
qed

text \<open>
  C1, amended: a candidate returned by the search has length 6, 7 or 8, and it either
  satisfies the format validator or is a raw concatenation of two surviving tokens, taken
  in input order, made of three letters followed by digits only; when the priority rule
  finds nothing, the candidate satisfies the format validator. A value returned by the
  recognizer is such a candidate, or else the not-found message or one of the two error
  messages, which are longer than 8 characters.
\<close>

theorem recognize_plate_value:
  "(extract_candidate_from_group nfkd self grp = Inr (Some r) \<longrightarrow>
      (length r = 6 \<or> length r = 7 \<or> length r = 8)
      \<and> (validate_plate_format r = Inr True
          \<or> r \<in> set (map (\<lambda>(a, b). a @ b) (pairs_in_order (cleaned_texts nfkd self grp)))
            \<and> isalpha (take 3 r) \<and> isdigit (drop 3 r))
      \<and> (find priority_pattern
             (map (\<lambda>(a, b). a @ b) (pairs_in_order (cleaned_texts nfkd self grp))) = None
           \<longrightarrow> validate_plate_format r = Inr True))
   \<and> (recognize_plate nfkd self path_exists imread readtext image_path = Inr v \<longrightarrow>
        (length v = 6 \<or> length v = 7 \<or> length v = 8)
        \<and> (validate_plate_format v = Inr True \<or> isalpha (take 3 v) \<and> isdigit (drop 3 v))
        \<or> 8 < length v
          \<and> (v = not_found \<or> v = ''Error: La imagen '' @ image_path @ '' no existe.''
              \<or> v = ''Error: No se pudo abrir la imagen '' @ image_path @ ''.''))"
proof (intro conjI impI)
  assume r: "extract_candidate_from_group nfkd self grp = Inr (Some r)"
  show "length r = 6 \<or> length r = 7 \<or> length r = 8" by (rule extract_length [OF r])
  show "validate_plate_format r = Inr True
          \<or> r \<in> set (map (\<lambda>(a, b). a @ b) (pairs_in_order (cleaned_texts nfkd self grp)))
            \<and> isalpha (take 3 r) \<and> isdigit (drop 3 r)"
    using r unfolding extract_find validate_plate_format_grammar
    by (auto split: option.splits dest!: find_SomeD simp: priority_pattern_def)
  show "validate_plate_format r = Inr True"
    if "find priority_pattern
         (map (\<lambda>(a, b). a @ b) (pairs_in_order (cleaned_texts nfkd self grp))) = None"
    using extract_later_tiers [OF r that] by (simp add: validate_plate_format_grammar)
next
  assume v: "recognize_plate nfkd self path_exists imread readtext image_path = Inr v"
  from recognize_plate_cases [OF v]
  show "(length v = 6 \<or> length v = 7 \<or> length v = 8)
        \<and> (validate_plate_format v = Inr True \<or> isalpha (take 3 v) \<and> isdigit (drop 3 v))
        \<or> 8 < length v
          \<and> (v = not_found \<or> v = ''Error: La imagen '' @ image_path @ '' no existe.''
              \<or> v = ''Error: No se pudo abrir la imagen '' @ image_path @ ''.'')"
  proof (elim disjE conjE exE)
    fix img groups
    assume "extract_candidate_from_group nfkd self (concat groups) = Inr (Some v)"
    then show ?thesis
      using extract_length [of nfkd self "concat groups" v]
        extract_shape [of nfkd self "concat groups" v]
      by (auto simp: validate_plate_format_grammar priority_pattern_def)
  qed (simp_all add: length_not_found)
qed


lemma find_candidates_raw_pair:
  "find plate_grammar (map (\<lambda>(a, b). a @ b) (pairs_in_order ts)) = Some x \<Longrightarrow>
   find plate_grammar (candidates_2_to_6 ts @ ws) = Some x"
  by (simp add: candidates_2_to_6_def find_append)

lemma single_token_pairs: "pairs_in_order [x] = []" "permutations2 [x] = []"
  by (simp_all add: pairs_in_order_def permutations2_def)

lemma find_candidates_single:
  "plate_grammar x \<Longrightarrow> find plate_grammar (candidates_2_to_6 [x] @ ws) = Some x"
  by (simp add: candidates_2_to_6_def single_token_pairs)

lemma example_clean_standard:
  "clean_text id (raw ''AB1'') = ''AB1''" "clean_text id (raw ''23CD'') = ''23CD''"
  "\<not> should_ignore ''AB1''" "\<not> should_ignore ''23CD''"
  by code_simp+

lemma example_tokens_standard:
  "cleaned_texts id \<lparr>max_horizontal_gap = 40, min_confidence = 1 / 2\<rparr>
      [(b1, raw ''AB1'', 9 / 10), (b2, raw ''23CD'', 4 / 5)] = [''AB1'', ''23CD'']"
  by (simp add: cleaned_texts_def original_texts_def example_clean_standard)

lemma example_find_standard:
  "find priority_pattern (map (\<lambda>(a, b). a @ b) (pairs_in_order [''AB1'', ''23CD''])) = None"
  "find plate_grammar (map (\<lambda>(a, b). a @ b) (pairs_in_order [''AB1'', ''23CD''])) = Some ''AB123CD''"
  by code_simp+

lemma example_extract_standard:
  "extract_candidate_from_group id \<lparr>max_horizontal_gap = 40, min_confidence = 1 / 2\<rparr>
     [(b1, raw ''AB1'', 9 / 10), (b2, raw ''23CD'', 4 / 5)] = Inr (Some ''AB123CD'')"
  unfolding extract_find example_tokens_standard
  by (simp add: example_find_standard find_candidates_raw_pair)

theorem recognize_plate_value_witness:
  "extract_candidate_from_group id \<lparr>max_horizontal_gap = 40, min_confidence = 1 / 2\<rparr>
     [((), raw ''AB1'', 9 / 10), ((), raw ''23CD'', 4 / 5)] = Inr (Some ''AB123CD'')
   \<and> length ''AB123CD'' = 7 \<and> validate_plate_format ''AB123CD'' = Inr True
   \<and> recognize_plate id \<lparr>max_horizontal_gap = 40, min_confidence = 1 / 2\<rparr>
        (\<lambda>p. False) (\<lambda>p. Some p) (\<lambda>i. []) ''real_plate.jpg''
      = Inr ''Error: La imagen real_plate.jpg no existe.''
   \<and> 8 < length ''Error: La imagen real_plate.jpg no existe.''"
proof -
  have "recognize_plate id \<lparr>max_horizontal_gap = 40, min_confidence = 1 / 2\<rparr>
        (\<lambda>p. False) (\<lambda>p. Some p) (\<lambda>i. []) ''real_plate.jpg''
      = Inr ''Error: La imagen real_plate.jpg no existe.''"
    by (simp add: recognize_plate_def)
  then show ?thesis
    using recognize_plate_value [of id "\<lparr>max_horizontal_gap = 40, min_confidence = 1 / 2\<rparr>"
        "[((), raw ''AB1'', 9 / 10), ((), raw ''23CD'', 4 / 5)]" "''AB123CD''"
        "\<lambda>p. False" "\<lambda>p. Some p" "\<lambda>i. []" "''real_plate.jpg''"
        "''Error: La imagen real_plate.jpg no existe.''"]
    by (simp add: example_extract_standard example_tokens_standard example_find_standard)
qed

text \<open>
  C10: a candidate returned by \<^verbatim>\<open>extract_candidate_from_group\<close> has length 6, 7 or 8 and
  is not the empty string, so the test \<^verbatim>\<open>if candidate:\<close> of the recognizer succeeds
  and the recognizer returns this candidate.
\<close>

theorem candidate_length_6_to_8:
  fixes grp :: "ocr_result list"
  assumes "extract_candidate_from_group nfkd self grp = Inr (Some r)"
  shows "(length r = 6 \<or> length r = 7 \<or> length r = 8) \<and> r \<noteq> []
       \<and> (path_exists image_path \<and> imread image_path = Some img
            \<and> group_close_texts (readtext img) = Inr groups \<and> concat groups = grp \<longrightarrow>
          recognize_plate nfkd self path_exists imread readtext image_path = Inr r)"
  using extract_length [OF assms] assms recognize_plate_found [of path_exists image_path imread img readtext groups nfkd self r]
  by auto

lemma example_clean_legacy:
  "clean_text id (raw ''ABC 123'') = ''ABC123''" "\<not> should_ignore ''ABC123''"
  "plate_grammar ''ABC123''"
  by code_simp+

lemma example_extract_legacy:
  "extract_candidate_from_group id \<lparr>max_horizontal_gap = 40, min_confidence = 1 / 2\<rparr>
     [(b, raw ''ABC 123'', 7 / 10)] = Inr (Some ''ABC123'')"
  unfolding extract_find
  by (simp add: cleaned_texts_def original_texts_def example_clean_legacy single_token_pairs
      find_candidates_single)

lemma example_group_legacy:
  "group_close_texts [([(10, 20), (90, 20), (90, 50), (10, 50)] :: bbox, raw ''ABC 123'', 7 / 10)]
     = Inr [[([(10, 20), (90, 20), (90, 50), (10, 50)] :: bbox, raw ''ABC 123'', 7 / 10)]]"
  by (simp add: group_close_texts_def)

theorem candidate_length_6_to_8_witness:
  "extract_candidate_from_group id \<lparr>max_horizontal_gap = 40, min_confidence = 1 / 2\<rparr>
     [([(10, 20), (90, 20), (90, 50), (10, 50)] :: bbox, raw ''ABC 123'', 7 / 10)] = Inr (Some ''ABC123'')
   \<and> length ''ABC123'' = 6 \<and> ''ABC123'' \<noteq> []
   \<and> recognize_plate id \<lparr>max_horizontal_gap = 40, min_confidence = 1 / 2\<rparr>
        (\<lambda>p. True) (\<lambda>p. Some p)
        (\<lambda>i. [([(10, 20), (90, 20), (90, 50), (10, 50)] :: bbox, raw ''ABC 123'', 7 / 10)])
        ''real_plate.jpg'' = Inr ''ABC123''"
  using candidate_length_6_to_8 [OF example_extract_legacy, of "\<lambda>p. True" "''real_plate.jpg''"
      "\<lambda>p. Some p" "''real_plate.jpg''"
      "\<lambda>i. [([(10, 20), (90, 20), (90, 50), (10, 50)] :: bbox, raw ''ABC 123'', 7 / 10)]"
      "[[([(10, 20), (90, 20), (90, 50), (10, 50)] :: bbox, raw ''ABC 123'', 7 / 10)]]"]
    example_extract_legacy example_group_legacy
  by simp

section \<open>No candidate, and no exception\<close>

text \<open>
  C8: \<^verbatim>\<open>extract_candidate_from_group\<close> raises no exception, whatever the tokens; it returns
  \<^verbatim>\<open>None\<close> exactly when no raw pair matches the priority rule and the validator rejects
  every candidate of every later tier; and the recognizer then returns the not-found
  message.
\<close>

theorem search_never_raises:
  fixes grp :: "ocr_result list"
  shows "(\<exists>res. extract_candidate_from_group nfkd self grp = Inr res)
   \<and> (extract_candidate_from_group nfkd self grp = Inr None \<longleftrightarrow>
        (\<forall>c \<in> set (map (\<lambda>(a, b). a @ b) (pairs_in_order (cleaned_texts nfkd self grp))).
            \<not> priority_pattern c)
        \<and> (\<forall>c \<in> set (candidates_2_to_6 (cleaned_texts nfkd self grp)
                       @ windows (concat (all_texts nfkd grp))).
              validate_plate_format c = Inr False))
   \<and> (path_exists image_path \<and> imread image_path = Some img
        \<and> group_close_texts (readtext img) = Inr groups \<and> concat groups = grp
        \<and> extract_candidate_from_group nfkd self grp = Inr None \<longrightarrow>
      recognize_plate nfkd self path_exists imread readtext image_path = Inr not_found)"
proof (intro conjI)
  show "\<exists>res. extract_candidate_from_group nfkd self grp = Inr res"
    by (simp add: extract_find)
  show "extract_candidate_from_group nfkd self grp = Inr None \<longleftrightarrow>
        (\<forall>c \<in> set (map (\<lambda>(a, b). a @ b) (pairs_in_order (cleaned_texts nfkd self grp))).
            \<not> priority_pattern c)
        \<and> (\<forall>c \<in> set (candidates_2_to_6 (cleaned_texts nfkd self grp)
                       @ windows (concat (all_texts nfkd grp))).
              validate_plate_format c = Inr False)"
    unfolding extract_find validate_plate_format_grammar
    by (fastforce simp: find_None_iff split: option.splits dest!: find_SomeD)
  show "path_exists image_path \<and> imread image_path = Some img
        \<and> group_close_texts (readtext img) = Inr groups \<and> concat groups = grp
        \<and> extract_candidate_from_group nfkd self grp = Inr None \<longrightarrow>
      recognize_plate nfkd self path_exists imread readtext image_path = Inr not_found"
    using recognize_plate_none [of path_exists image_path imread img readtext groups nfkd self]
    by auto
qed

lemma example_clean_hello:
  "clean_text id (raw ''HELLO'') = ''HELLO''" "\<not> should_ignore ''HELLO''"
  by code_simp+

lemma example_hello_texts:
  "cleaned_texts id \<lparr>max_horizontal_gap = 40, min_confidence = 1 / 2\<rparr> [(b, raw ''HELLO'', 9 / 10)]
     = [''HELLO'']"
  "all_texts id [(b, raw ''HELLO'', 9 / 10)] = [''HELLO'']"
  by (simp_all add: cleaned_texts_def original_texts_def all_texts_def example_clean_hello)

lemma example_hello_candidates:
  "list_all (\<lambda>c. validate_plate_format c = Inr False)
     (candidates_2_to_6 [''HELLO''] @ windows (concat [''HELLO'']))"
  by code_simp

lemma example_hello_group:
  "group_close_texts [([(12, 30), (80, 30), (80, 52), (12, 52)] :: bbox, raw ''HELLO'', 9 / 10)]
     = Inr [[([(12, 30), (80, 30), (80, 52), (12, 52)] :: bbox, raw ''HELLO'', 9 / 10)]]"
  by (simp add: group_close_texts_def)

theorem search_never_raises_witness:
  "extract_candidate_from_group id \<lparr>max_horizontal_gap = 40, min_confidence = 1 / 2\<rparr>
     [([(12, 30), (80, 30), (80, 52), (12, 52)] :: bbox, raw ''HELLO'', 9 / 10)] = Inr None
   \<and> recognize_plate id \<lparr>max_horizontal_gap = 40, min_confidence = 1 / 2\<rparr>
        (\<lambda>p. True) (\<lambda>p. Some p)
        (\<lambda>i. [([(12, 30), (80, 30), (80, 52), (12, 52)] :: bbox, raw ''HELLO'', 9 / 10)])
        ''real_plate.jpg'' = Inr not_found"
proof -
  let ?grp = "[([(12, 30), (80, 30), (80, 52), (12, 52)] :: bbox, raw ''HELLO'', 9 / 10)]"
  let ?self = "\<lparr>max_horizontal_gap = 40, min_confidence = 1 / 2\<rparr>"
  note t = search_never_raises [of id ?self ?grp "\<lambda>p. True" "''real_plate.jpg''" "\<lambda>p. Some p"
      "''real_plate.jpg''" "\<lambda>i. ?grp" "[?grp]"]
  have none: "extract_candidate_from_group id ?self ?grp = Inr None"
    using t example_hello_candidates
    by (simp add: example_hello_texts single_token_pairs list_all_iff)
  then show ?thesis using t example_hello_group by simp
qed

section \<open>The tokens that take part in the search\<close>

lemma search_tiers_split:
  "search_tiers ts final = or_else (search_tiers ts (Inr None)) final"
  by (auto simp: search_tiers_def or_else_def split: sum.splits option.splits)

text \<open>
  C6: the tokens of Tiers 1 to 6 are, in input order, the normalized texts of the tokens
  whose confidence is at least \<^verbatim>\<open>min_confidence\<close>, whose normalized text is not in the
  ignore set, and whose normalized text has at most 8 characters; these tiers see nothing
  else of the group, and the fallback runs only when they return nothing.
\<close>

theorem surviving_tokens:
  "cleaned_texts nfkd self grp
     = map (\<lambda>(b, t, p). clean_text nfkd t)
         (filter (\<lambda>(b, t, p). min_confidence self \<le> p \<and> clean_text nfkd t \<notin> ignore_words
                              \<and> length (clean_text nfkd t) \<le> 8) grp)
   \<and> extract_candidate_from_group nfkd self grp
     = or_else (search_tiers (cleaned_texts nfkd self grp) (Inr None)) (fallback nfkd grp)"
proof
  show "cleaned_texts nfkd self grp
     = map (\<lambda>(b, t, p). clean_text nfkd t)
         (filter (\<lambda>(b, t, p). min_confidence self \<le> p \<and> clean_text nfkd t \<notin> ignore_words
                              \<and> length (clean_text nfkd t) \<le> 8) grp)"
    by (simp add: cleaned_texts_def original_texts_def comp_def case_prod_unfold
        should_ignore_def not_less)
  show "extract_candidate_from_group nfkd self grp
     = or_else (search_tiers (cleaned_texts nfkd self grp) (Inr None)) (fallback nfkd grp)"
    unfolding extract_candidate_from_group_def by (rule search_tiers_split)
qed

lemma example_clean_filter:
  "clean_text id (raw ''abc'') = ''ABC''"
  "clean_text id (raw ''123'') = ''123''"
  "clean_text id (raw ''Mercosur'') = ''MERCOSUR''"
  "clean_text id (raw ''ABCDEFGHI'') = ''ABCDEFGHI''"
  "clean_text id (raw ''AB-123!'') = ''AB123''"
  "''ABC'' \<notin> ignore_words" "''MERCOSUR'' \<in> ignore_words" "''ABCDEFGHI'' \<notin> ignore_words"
  "''AB123'' \<notin> ignore_words"
  by code_simp+

theorem surviving_tokens_witness:
  "cleaned_texts id \<lparr>max_horizontal_gap = 40, min_confidence = 1 / 2\<rparr>
     [((), raw ''abc'', 1 / 2), ((), raw ''123'', 49 / 100), ((), raw ''Mercosur'', 9 / 10),
      ((), raw ''ABCDEFGHI'', 9 / 10), ((), raw ''AB-123!'', 9 / 10)]
   = [''ABC'', ''AB123'']"
  using surviving_tokens [of id "\<lparr>max_horizontal_gap = 40, min_confidence = 1 / 2\<rparr>"
     "[((), raw ''abc'', 1 / 2), ((), raw ''123'', 49 / 100), ((), raw ''Mercosur'', 9 / 10),
      ((), raw ''ABCDEFGHI'', 9 / 10), ((), raw ''AB-123!'', 9 / 10)]", THEN conjunct1]
  by (simp add: example_clean_filter)


section \<open>The priority rule\<close>

lemma find_concat_None: "(\<forall>xs \<in> set xss. find P xs = None) \<Longrightarrow> find P (concat xss) = None"
  by (induction xss) (simp_all add: find_append)

lemma find_upt_first:
  assumes "a \<le> k" "k < b" "find P (g k) = Some x"
    and "\<forall>k'. a \<le> k' \<and> k' < k \<longrightarrow> find P (g k') = None"
  shows "find P (concat (map g [a..<b])) = Some x"
proof -
  have "[a..<b] = [a..<k] @ k # [Suc k..<b]"
  proof -
    have "[a..<k + (b - k)] = [a..<k] @ [k..<k + (b - k)]"
      using assms(1) by (rule upt_add_eq_append)
    moreover have "k + (b - k) = b" using assms(2) by simp
    moreover have "[k..<b] = k # [Suc k..<b]" using assms(2) by (rule upt_conv_Cons)
    ultimately show ?thesis by simp
  qed
  moreover have "find P (concat (map g [a..<k])) = None"
    using assms(4) by (intro find_concat_None) auto
  ultimately show ?thesis using assms(3) by (simp add: find_append)
qed

lemma find_pairs_first:
  assumes "i < j" "j < length ts" "P (f (ts ! i, ts ! j))"
    and "\<forall>i' j'. i' < j' \<and> j' < length ts \<and> (i' < i \<or> i' = i \<and> j' < j) \<longrightarrow>
           \<not> P (f (ts ! i', ts ! j'))"
  shows "find P (map f (pairs_in_order ts)) = Some (f (ts ! i, ts ! j))"
proof -
  let ?n = "length ts"
  let ?row = "\<lambda>i. map (\<lambda>j. f (ts ! i, ts ! j)) [i + 1..<?n]"
  have rows: "map f (pairs_in_order ts) = concat (map ?row [0..<?n])"
    by (simp add: pairs_in_order_def map_concat comp_def)
  have row: "?row i = concat (map (\<lambda>j. [f (ts ! i, ts ! j)]) [i + 1..<?n])" for i
    by simp
  have "find P (?row i) = Some (f (ts ! i, ts ! j))"
    unfolding row using assms by (intro find_upt_first) auto
  moreover have "find P (?row i') = None" if "i' < i" for i'
    using assms that by (auto simp: find_None_iff)
  ultimately show ?thesis
    unfolding rows using assms(1,2) by (intro find_upt_first) auto
qed

lemma priority_pattern_classes:
  "priority_pattern s \<longleftrightarrow>
     length s = 8 \<and> list_all char_isalpha (take 3 s) \<and> list_all char_isdigit (drop 3 s)"
  by (auto simp: priority_pattern_def isalpha_def isdigit_def)

text \<open>
  C2: scanning the pairs \<open>(i, j)\<close> of surviving tokens with \<open>i\<close> before \<open>j\<close>, with \<open>i\<close>
  in the outer loop, the first concatenation of length 8 whose first 3 characters are
  letters and whose other 5 are digits is what the search returns, unchanged. Nothing is
  asked of the validator: the rule wins also where a raw pair would pass Tier 2.
\<close>

theorem priority_rule_first:
  assumes "i < j" and "j < length (cleaned_texts nfkd self grp)"
    and "priority_pattern (cleaned_texts nfkd self grp ! i @ cleaned_texts nfkd self grp ! j)"
    and "\<forall>i' j'. i' < j' \<and> j' < length (cleaned_texts nfkd self grp) \<and> (i' < i \<or> i' = i \<and> j' < j) \<longrightarrow>
           \<not> priority_pattern (cleaned_texts nfkd self grp ! i' @ cleaned_texts nfkd self grp ! j')"
  shows "extract_candidate_from_group nfkd self grp
           = Inr (Some (cleaned_texts nfkd self grp ! i @ cleaned_texts nfkd self grp ! j))
       \<and> (\<forall>s. priority_pattern s \<longleftrightarrow>
             length s = 8 \<and> list_all char_isalpha (take 3 s) \<and> list_all char_isdigit (drop 3 s))"
proof -
  have "find priority_pattern (map (\<lambda>(a, b). a @ b) (pairs_in_order (cleaned_texts nfkd self grp)))
        = Some ((\<lambda>(a, b). a @ b) (cleaned_texts nfkd self grp ! i, cleaned_texts nfkd self grp ! j))"
    using assms by (intro find_pairs_first) auto
  then show ?thesis
    using priority_pattern_classes by (simp add: extract_find)
qed

lemma example_clean_both:
  "clean_text id (raw ''AB1'') = ''AB1''" "clean_text id (raw ''23CD'') = ''23CD''"
  "clean_text id (raw ''ABC'') = ''ABC''" "clean_text id (raw ''12345'') = ''12345''"
  "\<not> should_ignore ''AB1''" "\<not> should_ignore ''23CD''"
  "\<not> should_ignore ''ABC''" "\<not> should_ignore ''12345''"
  by code_simp+

lemma example_tokens_both:
  "cleaned_texts id \<lparr>max_horizontal_gap = 40, min_confidence = 1 / 2\<rparr>
     [(b1, raw ''AB1'', 9 / 10), (b2, raw ''23CD'', 9 / 10), (b3, raw ''ABC'', 9 / 10),
      (b4, raw ''12345'', 9 / 10)] = [''AB1'', ''23CD'', ''ABC'', ''12345'']"
  by (simp add: cleaned_texts_def original_texts_def example_clean_both)

lemma example_scan_both:
  "\<not> priority_pattern (''AB1'' @ ''23CD'')" "\<not> priority_pattern (''AB1'' @ ''ABC'')"
  "\<not> priority_pattern (''AB1'' @ ''12345'')" "\<not> priority_pattern (''23CD'' @ ''ABC'')"
  "\<not> priority_pattern (''23CD'' @ ''12345'')" "priority_pattern (''ABC'' @ ''12345'')"
  "validate_plate_format (''AB1'' @ ''23CD'') = Inr True"
  by code_simp+

theorem priority_rule_first_witness:
  "extract_candidate_from_group id \<lparr>max_horizontal_gap = 40, min_confidence = 1 / 2\<rparr>
     [((), raw ''AB1'', 9 / 10), ((), raw ''23CD'', 9 / 10), ((), raw ''ABC'', 9 / 10),
      ((), raw ''12345'', 9 / 10)] = Inr (Some ''ABC12345'')
   \<and> priority_pattern ''ABC12345''
   \<and> validate_plate_format (''AB1'' @ ''23CD'') = Inr True"
proof -
  let ?ts = "[''AB1'', ''23CD'', ''ABC'', ''12345'']"
  let ?self = "\<lparr>max_horizontal_gap = 40, min_confidence = 1 / 2\<rparr>"
  let ?grp = "[((), raw ''AB1'', 9 / 10), ((), raw ''23CD'', 9 / 10), ((), raw ''ABC'', 9 / 10),
      ((), raw ''12345'', 9 / 10)]"
  have p: "priority_pattern (?ts ! 2 @ ?ts ! 3)"
    using example_scan_both(6) by simp
  have v: "validate_plate_format (''AB1'' @ ''23CD'') = Inr True"
    by (rule example_scan_both(7))
  have first: "\<forall>i' j'. i' < j' \<and> j' < length ?ts \<and> (i' < 2 \<or> i' = 2 \<and> j' < 3) \<longrightarrow>
           \<not> priority_pattern (?ts ! i' @ ?ts ! j')"
  proof (intro allI impI)
    fix i' j' :: nat
    assume "i' < j' \<and> j' < length ?ts \<and> (i' < 2 \<or> i' = 2 \<and> j' < 3)"
    then have "i' = 0 \<and> (j' = 1 \<or> j' = 2 \<or> j' = 3) \<or> i' = 1 \<and> (j' = 2 \<or> j' = 3)"
      by (simp only: list.size) arith
    then show "\<not> priority_pattern (?ts ! i' @ ?ts ! j')"
      using example_scan_both(1-5) by (elim disjE conjE) simp_all
  qed
  have "extract_candidate_from_group id ?self ?grp = Inr (Some (?ts ! 2 @ ?ts ! 3))"
    using priority_rule_first [of 2 3 id ?self ?grp] p first
    unfolding example_tokens_both by simp
  then show ?thesis using p v by simp
qed

section \<open>The fallback\<close>

lemma slice_Cons: "slice (x # xs) (Suc j) (Suc j + n) = slice xs j (j + n)"
  by (simp add: slice_def)

lemma windows_sliding:
  "map (\<lambda>j. slice s j (j + n)) [0..<nat (int (length s) - int n + 1)] = sliding n s"
proof (induction s)
  case Nil
  show ?case by (cases n) (simp_all add: slice_def)
next
  case (Cons x xs)
  show ?case
  proof (cases "length (x # xs) < n")
    case True
    then show ?thesis by simp
  next
    case False
    then have m: "nat (int (length (x # xs)) - int n + 1) = Suc (nat (int (length xs) - int n + 1))"
      by simp
    have "map (\<lambda>j. slice (x # xs) j (j + n)) [0..<Suc (nat (int (length xs) - int n + 1))]
          = slice (x # xs) 0 n
            # map (\<lambda>j. slice (x # xs) (Suc j) (Suc j + n)) [0..<nat (int (length xs) - int n + 1)]"
      by (simp add: upt_conv_Cons map_Suc_upt [symmetric] comp_def del: upt_Suc)
    also have "\<dots> = take n (x # xs) # sliding n xs"
      by (simp only: slice_Cons Cons.IH) (simp add: slice_def)
    finally show ?thesis using False unfolding m by simp
  qed
qed

lemma windows_spec:
  "windows combined
     = concat (map (\<lambda>w. w # generate_ambiguity_variants w)
         (sliding 6 combined @ sliding 7 combined @ sliding 8 combined))"
proof -
  have "concat (map (\<lambda>j. let candidate = slice combined j (j + len)
                          in candidate # generate_ambiguity_variants candidate)
                    [0..<nat (int (length combined) - int len + 1)])
        = concat (map (\<lambda>w. w # generate_ambiguity_variants w) (sliding len combined))" for len
    unfolding windows_sliding [symmetric] by (simp add: comp_def Let_def)
  then show ?thesis by (simp add: windows_def)
qed

text \<open>
  C5: the fallback joins, in input order, the normalized texts of all the tokens that are
  not ignored, whatever their confidence; it slides a window of length 6 over the joined
  string from left to right, then one of length 7, then one of length 8; at each position
  it tries the window itself and then its variants, and it returns the first string that
  the validator accepts. The search returns the result of the fallback when Tiers 1 to 6
  return nothing.
\<close>

theorem fallback_sliding_window:
  "all_texts nfkd grp
     = filter (\<lambda>t. t \<notin> ignore_words \<and> length t \<le> 8) (map (\<lambda>(b, t, p). clean_text nfkd t) grp)
   \<and> fallback nfkd grp
     = Inr (find plate_grammar
         (concat (map (\<lambda>w. w # generate_ambiguity_variants w)
            (sliding 6 (concat (all_texts nfkd grp)) @ sliding 7 (concat (all_texts nfkd grp))
             @ sliding 8 (concat (all_texts nfkd grp))))))
   \<and> (search_tiers (cleaned_texts nfkd self grp) (Inr None) = Inr None \<longrightarrow>
        extract_candidate_from_group nfkd self grp = fallback nfkd grp)"
proof (intro conjI impI)
  show "all_texts nfkd grp
     = filter (\<lambda>t. t \<notin> ignore_words \<and> length t \<le> 8) (map (\<lambda>(b, t, p). clean_text nfkd t) grp)"
    by (simp add: all_texts_def should_ignore_def not_less)
  show "fallback nfkd grp
     = Inr (find plate_grammar
         (concat (map (\<lambda>w. w # generate_ambiguity_variants w)
            (sliding 6 (concat (all_texts nfkd grp)) @ sliding 7 (concat (all_texts nfkd grp))
             @ sliding 8 (concat (all_texts nfkd grp))))))"
    by (simp only: fallback_def Let_def first_valid_find windows_spec)
  show "extract_candidate_from_group nfkd self grp = fallback nfkd grp"
    if "search_tiers (cleaned_texts nfkd self grp) (Inr None) = Inr None"
    unfolding extract_candidate_from_group_def
    by (subst search_tiers_split) (simp add: that or_else_def)
qed

lemma empty_pairs: "pairs_in_order [] = []" "permutations2 [] = []"
  by (simp_all add: pairs_in_order_def permutations2_def)

lemma search_tiers_Nil: "search_tiers [] (Inr None) = Inr None"
  by (simp add: search_tiers_def empty_pairs or_else_def)

lemma example_clean_low:
  "clean_text id (raw ''ABC12'') = ''ABC12''" "clean_text id (raw ''3'') = ''3''"
  "''ABC12'' \<notin> ignore_words" "''3'' \<notin> ignore_words"
  "\<not> should_ignore ''ABC12''" "\<not> should_ignore ''3''"
  by code_simp+

lemma example_low_find:
  "find plate_grammar
         (concat (map (\<lambda>w. w # generate_ambiguity_variants w)
            (sliding 6 (concat [''ABC12'', ''3'']) @ sliding 7 (concat [''ABC12'', ''3''])
             @ sliding 8 (concat [''ABC12'', ''3''])))) = Some ''ABC123''"
  by code_simp

theorem fallback_sliding_window_witness:
  "cleaned_texts id \<lparr>max_horizontal_gap = 40, min_confidence = 1 / 2\<rparr>
     [((), raw ''ABC12'', 1 / 10), ((), raw ''3'', 1 / 5)] = []
   \<and> extract_candidate_from_group id \<lparr>max_horizontal_gap = 40, min_confidence = 1 / 2\<rparr>
     [((), raw ''ABC12'', 1 / 10), ((), raw ''3'', 1 / 5)] = Inr (Some ''ABC123'')"
proof -
  let ?self = "\<lparr>max_horizontal_gap = 40, min_confidence = 1 / 2\<rparr>"
  let ?grp = "[((), raw ''ABC12'', 1 / 10), ((), raw ''3'', 1 / 5)]"
  have ts: "cleaned_texts id ?self ?grp = []"
    by (simp add: cleaned_texts_def original_texts_def)
  note t = fallback_sliding_window [of id ?grp ?self]
  have a: "all_texts id ?grp = [''ABC12'', ''3'']"
    using t [THEN conjunct1] by (simp add: example_clean_low)
  have "fallback id ?grp = Inr (Some ''ABC123'')"
    using t [THEN conjunct2, THEN conjunct1] unfolding a example_low_find .
  moreover have "extract_candidate_from_group id ?self ?grp = fallback id ?grp"
    using t [THEN conjunct2, THEN conjunct2] by (simp add: ts search_tiers_Nil)
  ultimately show ?thesis using ts by simp
qed

section \<open>What the normalizer returns\<close>

lemma upper_or_digit_codes: "\<forall>n \<in> set ([48..<58] @ [65..<91]). upper_or_digit (char_of n)"
  by code_simp

lemma clean_text_alnum:
  "clean_text nfkd text
     = map (\<lambda>c. char_of (if 97 \<le> c \<and> c \<le> 122 then c - 32 else c))
         (filter ascii_alnum (nfkd text))"
proof -
  have "re_sub_non_alnum (upper (encode_ascii_ignore xs))
        = map (\<lambda>c. if 97 \<le> c \<and> c \<le> 122 then c - 32 else c) (filter ascii_alnum xs)" for xs
    by (induction xs)
      (auto simp: re_sub_non_alnum_def upper_def encode_ascii_ignore_def ascii_alnum_def)
  then show ?thesis by (simp add: clean_text_def)
qed

lemma clean_text_chars:
  assumes "c \<in> set (clean_text nfkd text)"
  shows "upper_or_digit c"
proof -
  from assms obtain n :: nat where n: "c = char_of n" "(65 \<le> n \<and> n \<le> 90) \<or> (48 \<le> n \<and> n \<le> 57)"
    by (auto simp: clean_text_def re_sub_non_alnum_def)
  then have "n \<in> set ([48..<58] @ [65..<91])"
    by (simp only: set_append set_upt Un_iff atLeastLessThan_iff) arith
  then show ?thesis using upper_or_digit_codes n(1) by blast
qed

lemma clean_text_ascii:
  assumes "\<forall>s. (\<forall>c \<in> set s. c < 128) \<longrightarrow> nfkd s = s" and "\<forall>c \<in> set text. c < 128"
  shows "clean_text nfkd text = clean_text id text"
  using assms by (simp add: clean_text_def)

lemma example_clean_spec:
  "\<forall>c \<in> set (raw ''Buenos Aires''). c < 128" "\<forall>c \<in> set (raw ''AB-123!''). c < 128"
  "clean_text id (raw ''Buenos Aires'') = ''BUENOSAIRES''"
  "clean_text id (raw ''AB-123!'') = ''AB123''"
  by code_simp+

text \<open>
  C7: \<^verbatim>\<open>clean_text\<close> is a function of its input that returns for every text: the result
  holds only the characters A to Z and 0 to 9; it is made of the ASCII letters and digits
  of the normal form, in upper case, so that combining accents, punctuation and white
  space are gone; \<^verbatim>\<open>Buenos Aires\<close> gives \<^verbatim>\<open>BUENOSAIRES\<close>, \<^verbatim>\<open>AB-123!\<close> gives \<^verbatim>\<open>AB123\<close>, and
  an empty text or a text of white space gives the empty string. Of the normal form, two
  facts of Unicode are assumed: it leaves a text of ASCII code points as it is, and the
  normal form of white space holds no ASCII letter and no ASCII digit.
\<close>

theorem clean_text_normalizes:
  assumes "\<forall>s. (\<forall>c \<in> set s. c < 128) \<longrightarrow> nfkd s = s"
    and "\<forall>s. (\<forall>c \<in> set s. isspace_cp c) \<longrightarrow> (\<forall>c \<in> set (nfkd s). \<not> ascii_alnum c)"
  shows "(\<forall>c \<in> set (clean_text nfkd text). upper_or_digit c)
       \<and> clean_text nfkd text
         = map (\<lambda>c. char_of (if 97 \<le> c \<and> c \<le> 122 then c - 32 else c))
             (filter ascii_alnum (nfkd text))
       \<and> clean_text nfkd (raw ''Buenos Aires'') = ''BUENOSAIRES''
       \<and> clean_text nfkd (raw ''AB-123!'') = ''AB123''
       \<and> clean_text nfkd [] = []
       \<and> ((\<forall>c \<in> set text. isspace_cp c) \<longrightarrow> clean_text nfkd text = [])"
proof (intro conjI impI)
  show "\<forall>c \<in> set (clean_text nfkd text). upper_or_digit c"
    using clean_text_chars by blast
  show "clean_text nfkd text
         = map (\<lambda>c. char_of (if 97 \<le> c \<and> c \<le> 122 then c - 32 else c))
             (filter ascii_alnum (nfkd text))"
    by (rule clean_text_alnum)
  show "clean_text nfkd (raw ''Buenos Aires'') = ''BUENOSAIRES''"
    using clean_text_ascii [OF assms(1) example_clean_spec(1)] example_clean_spec(3) by simp
  show "clean_text nfkd (raw ''AB-123!'') = ''AB123''"
    using clean_text_ascii [OF assms(1) example_clean_spec(2)] example_clean_spec(4) by simp
  have "nfkd [] = []" using assms(1) by simp
  then show "clean_text nfkd [] = []" by (simp add: clean_text_alnum)
  show "clean_text nfkd text = []" if "\<forall>c \<in> set text. isspace_cp c"
  proof -
    have "\<forall>c \<in> set (nfkd text). \<not> ascii_alnum c" using assms(2) that by blast
    then have "filter ascii_alnum (nfkd text) = []" by (simp add: filter_empty_conv)
    then show ?thesis by (simp add: clean_text_alnum)
  qed
qed


lemma nfkd_sample_ascii: "\<forall>c \<in> set s. c < 128 \<Longrightarrow> nfkd_sample s = s"
  by (induction s) (simp_all add: nfkd_sample_def)

lemma isspace_plain:
  "isspace_cp c \<Longrightarrow>
     \<not> ascii_alnum c \<and> c \<noteq> 225 \<and> c \<noteq> 233 \<and> c \<noteq> 237 \<and> c \<noteq> 243 \<and> c \<noteq> 250 \<and> c \<noteq> 241"
  unfolding isspace_cp_def ascii_alnum_def by arith

lemma nfkd_sample_space:
  "\<forall>c \<in> set s. isspace_cp c \<Longrightarrow> \<forall>c \<in> set (nfkd_sample s). \<not> ascii_alnum c"
  by (induction s) (simp_all add: nfkd_sample_def isspace_plain)

lemma example_clean_accent:
  "clean_text nfkd_sample [74, 111, 115, 233, 32, 49] = ''JOSE1''"
  "\<forall>c \<in> set [32, 160, 9]. isspace_cp c"
  by code_simp+

theorem clean_text_normalizes_witness:
  "clean_text nfkd_sample [74, 111, 115, 233, 32, 49] = ''JOSE1''
   \<and> upper_or_digit CHR ''J'' \<and> upper_or_digit CHR ''1''
   \<and> clean_text nfkd_sample (raw ''Buenos Aires'') = ''BUENOSAIRES''
   \<and> clean_text nfkd_sample [32, 160, 9] = []"
proof -
  have h1: "\<forall>s. (\<forall>c \<in> set s. c < 128) \<longrightarrow> nfkd_sample s = s"
    using nfkd_sample_ascii by blast
  have h2: "\<forall>s. (\<forall>c \<in> set s. isspace_cp c) \<longrightarrow> (\<forall>c \<in> set (nfkd_sample s). \<not> ascii_alnum c)"
    using nfkd_sample_space by blast
  note t = clean_text_normalizes [OF h1 h2]
  have "\<forall>c \<in> set ''JOSE1''. upper_or_digit c"
    using t [of "[74, 111, 115, 233, 32, 49]", THEN conjunct1]
    unfolding example_clean_accent(1) .
  then have a: "upper_or_digit CHR ''J'' \<and> upper_or_digit CHR ''1''"
    by simp
  have b: "clean_text nfkd_sample (raw ''Buenos Aires'') = ''BUENOSAIRES''"
    by (rule t [THEN conjunct2, THEN conjunct2, THEN conjunct1])
  have c: "clean_text nfkd_sample [32, 160, 9] = []"
    by (rule t [of "[32, 160, 9]", THEN conjunct2, THEN conjunct2, THEN conjunct2, THEN conjunct2,
          THEN conjunct2, THEN mp, OF example_clean_accent(2)])
  from example_clean_accent(1) a b c show ?thesis
    by blast
qed

end
